theory Spec2Isabelle
  imports Main
begin

section \<open>Data model\<close>

text \<open>
  The program is \<^verbatim>\<open>cli/cmd/check.go\<close>: the \<^verbatim>\<open>mizu check\<close> command. Every function
  of that file is embedded below under its own name. A Go \<^verbatim>\<open>error\<close> is a message; a
  function returning \<^verbatim>\<open>error\<close> returns \<open>error option\<close> (\<open>None\<close> is \<^verbatim>\<open>nil\<close>), and a
  function returning \<^verbatim>\<open>(v, err)\<close> returns the pair, which the code inspects \<^verbatim>\<open>err\<close> first.
\<close>

type_synonym error = string

datatype pod_phase = PodPending | PodRunning | PodSucceeded | PodFailed | PodUnknown

record pod =
  Name :: string
  Phase :: pod_phase

record PolicyRule =
  APIGroups :: "string list"
  Resources :: "string list"
  Verbs :: "string list"

text \<open>What the deserializer can hand back: the two kinds the code asserts, or another.\<close>

datatype runtime_object =
    Role "PolicyRule list"
  | ClusterRole "PolicyRule list"
  | OtherKind

text \<open>The three transports of the connectivity check.\<close>

datatype strategy = Direct | Proxy | PortForward

text \<open>
  One iteration of the \<^verbatim>\<open>select\<close> in \<^verbatim>\<open>checkImagePulled\<close> takes one of these:
  a value or the closing of the event channel, a value or the closing of the error
  channel, or the timer of \<^verbatim>\<open>time.After(30 * time.Second)\<close>.
\<close>

datatype 'e select_outcome =
    EventRecv 'e
  | EventClosed
  | ErrorRecv error
  | ErrorClosed
  | TimerFired

subsection \<open>Configuration\<close>

text \<open>
  The fields of \<^verbatim>\<open>config.Config\<close> and the constants of package \<^verbatim>\<open>kubernetes\<close> that the
  file reads. Their values are declared outside \<^verbatim>\<open>check.go\<close>, so they are parameters.
\<close>

record config =
  PreTap :: bool
  IsNsRestrictedMode :: bool
  MizuResourcesNamespace :: string
  GuiPort :: nat
  ProxyHost :: string
  GetApiServerUrl :: "nat \<Rightarrow> string"
  ConfigMapName :: string
  ServiceAccountName :: string
  RoleName :: string
  RoleBindingName :: string
  ClusterRoleName :: string
  ClusterRoleBindingName :: string
  ApiServerPodName :: string
  TapperPodName :: string

subsection \<open>The collaborators\<close>

text \<open>
  What the cluster client, the API-server client, the embedded file system and the
  deserializer answer when called. \<open>TestConnection\<close> is asked through which transport the
  probe goes; \<open>FilteredWatch\<close> is the sequence of outcomes the \<^verbatim>\<open>select\<close> loop is
  given, in the order it takes them.
\<close>

record 'e cluster =
  NewProvider :: "error option"
  GetKubernetesVersion :: "string option \<times> error option"
  ValidateKubernetesVersion :: "string option \<Rightarrow> error option"
  TestConnection :: "strategy \<Rightarrow> error option"
  StartProxy :: "error option"
  Shutdown :: "error option"
  NewPortForward :: "error option"
  DoesNamespaceExist :: "string \<Rightarrow> bool \<times> error option"
  DoesConfigMapExist :: "string \<Rightarrow> string \<Rightarrow> bool \<times> error option"
  DoesServiceAccountExist :: "string \<Rightarrow> string \<Rightarrow> bool \<times> error option"
  DoesRoleExist :: "string \<Rightarrow> string \<Rightarrow> bool \<times> error option"
  DoesRoleBindingExist :: "string \<Rightarrow> string \<Rightarrow> bool \<times> error option"
  DoesClusterRoleExist :: "string \<Rightarrow> bool \<times> error option"
  DoesClusterRoleBindingExist :: "string \<Rightarrow> bool \<times> error option"
  DoesServiceExist :: "string \<Rightarrow> string \<Rightarrow> bool \<times> error option"
  ListPodsByAppLabel :: "string \<Rightarrow> string \<Rightarrow> pod list \<times> error option"
  IsPodRunning :: "pod \<Rightarrow> bool"
  ReadFile :: "string \<Rightarrow> string \<times> error option"
  Decode :: "string \<Rightarrow> runtime_object \<times> error option"
  CanI :: "string \<Rightarrow> string \<Rightarrow> string \<Rightarrow> string \<Rightarrow> bool \<times> error option"
  CreateNamespace :: "string \<Rightarrow> error option"
  CreatePod :: "string \<Rightarrow> string \<Rightarrow> error option"
  RemovePod :: "string \<Rightarrow> string \<Rightarrow> error option"
  RemoveNamespace :: "string \<Rightarrow> error option"
  FilteredWatch :: "'e select_outcome list"
  ToPod :: "'e \<Rightarrow> error + pod"

subsection \<open>What a run leaves behind\<close>

text \<open>
  The log lines, one constructor for each format string of the file with the values
  of its \<^verbatim>\<open>%v\<close>s (the green tick and the red cross are fixed by the format string),
  and the calls made on the collaborators, with their arguments.

  \<^item> \<open>MizuChecks\<close>: \<^verbatim>\<open>Mizu checks\<close>; \<open>Section s\<close>: the header of a stage, the name \<open>s\<close> over
    a rule; \<open>StatusGreen\<close> and \<open>StatusRed\<close>: \<^verbatim>\<open>Status check results are %v\<close>, with
    the tick at level info and with the cross at level error.
  \<^item> \<open>CantInitClient\<close>, \<open>CanInitClient\<close>, \<open>CantQueryApi\<close>, \<open>CanQueryApi\<close>:
    \<^verbatim>\<open>can't initialize the client, err: %v\<close>, \<^verbatim>\<open>can initialize the client\<close>,
    \<^verbatim>\<open>can't query the Kubernetes API, err: %v\<close>, \<^verbatim>\<open>can query the Kubernetes API\<close>.
  \<^item> \<open>NotMinimumVersion\<close>, \<open>IsMinimumVersion\<close>: \<^verbatim>\<open>not running the minimum Kubernetes API
    version, err: %v\<close>, \<^verbatim>\<open>is running the minimum Kubernetes API version\<close>.
  \<^item> \<open>TunnelAvailable\<close>: \<^verbatim>\<open>found Mizu server tunnel available and connected successfully
    to API server\<close>; \<open>ProxyFailed\<close>, \<open>ProxyConnected\<close>, \<open>PortForwardFailed\<close>,
    \<open>PortForwardConnected\<close>: \<^verbatim>\<open>couldn't connect to API server using proxy, err: %v\<close>,
    \<^verbatim>\<open>connected successfully to API server using proxy\<close>, and the same two for
    \<^verbatim>\<open>port-forward\<close>; \<open>ProxyStopError\<close>: \<^verbatim>\<open>Error occurred while stopping proxy, err: %v\<close>,
    at level debug.
  \<^item> \<open>ResourceCheckError\<close>, \<open>ResourceMissing\<close>, \<open>ResourceExists\<close>, with the name and the
    type: \<^verbatim>\<open>error checking if '%v' %v exists, err: %v\<close>, \<^verbatim>\<open>'%v' %v doesn't exist\<close>,
    \<^verbatim>\<open>'%v' %v exists\<close>.
  \<^item> \<open>PodCheckError\<close>, \<open>PodMissing\<close>, \<open>PodNotRunning\<close>, \<open>PodRunningMsg\<close>:
    \<^verbatim>\<open>error checking if '%v' pod is running, err: %v\<close>, \<^verbatim>\<open>'%v' pod doesn't exist\<close>,
    \<^verbatim>\<open>'%v' pod not running\<close>, \<^verbatim>\<open>'%v' pod running\<close>.
  \<^item> \<open>PodsCheckError\<close>, \<open>PodsNotRunning\<close>, \<open>PodsRunning\<close>:
    \<^verbatim>\<open>error checking if '%v' pods are running, err: %v\<close>,
    \<^verbatim>\<open>'%v' %v/%v pods are not running\<close>, \<^verbatim>\<open>'%v' %v pods running\<close>.
  \<^item> \<open>PermissionsError\<close>: \<^verbatim>\<open>error while checking kubernetes permissions, err: %v\<close>;
    \<open>PermissionCheckError\<close>, \<open>Cannot\<close>, \<open>Can\<close>, with the verb, the resource and the group:
    \<^verbatim>\<open>error checking permission for %v %v in group '%v', err: %v\<close>,
    \<^verbatim>\<open>can't %v %v in group '%v'\<close>, \<^verbatim>\<open>can %v %v in group '%v'\<close>.
  \<^item> \<open>CreateResourcesError\<close>, \<open>ImageNotPulled\<close>, \<open>ImagePulled\<close>:
    \<^verbatim>\<open>error while creating image pull in cluster resources, err: %v\<close>,
    \<^verbatim>\<open>cluster is not able to pull mizu containers from docker hub, err: %v\<close>,
    \<^verbatim>\<open>cluster is able to pull mizu containers from docker hub\<close>;
    \<open>RemoveResourcesError\<close>: \<^verbatim>\<open>error while removing image pull in cluster resources,
    err: %v\<close>, at level debug.
\<close>

datatype message =
    MizuChecks
  | Section string
  | StatusGreen
  | StatusRed
  | CantInitClient error
  | CanInitClient
  | CantQueryApi error
  | CanQueryApi
  | NotMinimumVersion error
  | IsMinimumVersion
  | TunnelAvailable
  | ProxyFailed error
  | ProxyConnected
  | PortForwardFailed error
  | PortForwardConnected
  | ProxyStopError error
  | ResourceCheckError string string error
  | ResourceMissing string string
  | ResourceExists string string
  | PodCheckError string error
  | PodMissing string
  | PodNotRunning string
  | PodRunningMsg string
  | PodsCheckError string error
  | PodsNotRunning string int int
  | PodsRunning string int
  | PermissionsError error
  | PermissionCheckError string string string error
  | Cannot string string string
  | Can string string string
  | CreateResourcesError error
  | ImageNotPulled error
  | ImagePulled
  | RemoveResourcesError error

datatype call =
    NewProvider_call
  | GetKubernetesVersion_call
  | ValidateKubernetesVersion_call "string option"
  | TestConnection_call strategy string
  | StartProxy_call
  | Shutdown_call
  | NewPortForward_call
  | Close_call
  | DoesNamespaceExist_call string
  | DoesConfigMapExist_call string string
  | DoesServiceAccountExist_call string string
  | DoesRoleExist_call string string
  | DoesRoleBindingExist_call string string
  | DoesClusterRoleExist_call string
  | DoesClusterRoleBindingExist_call string
  | DoesServiceExist_call string string
  | ListPodsByAppLabel_call string string
  | ReadFile_call string
  | Decode_call string
  | CanI_call string string string string
  | CreateNamespace_call string
  | CreatePod_call string string
  | RemovePod_call string string
  | RemoveNamespace_call string
  | FilteredWatch_call string string
  | cancel_call

datatype event =
    Infof message
  | Errorf message
  | Debugf message
  | Call call

section \<open>The permission verifier\<close>

text \<open>
  \<^verbatim>\<open>checkPermissionExist(group, resource, verb, exist, err)\<close>: one log line, and whether
  the permission is there.
\<close>

definition checkPermissionExist ::
  "string \<Rightarrow> string \<Rightarrow> string \<Rightarrow> bool \<Rightarrow> error option \<Rightarrow> bool \<times> event list" where
  "checkPermissionExist group' resource verb exist err =
     (case err of
        Some e \<Rightarrow> (False, [Errorf (PermissionCheckError verb resource group' e)])
      | None \<Rightarrow>
          if \<not> exist then (False, [Errorf (Cannot verb resource group')])
          else (True, [Infof (Can verb resource group')]))"

text \<open>
  The body of the innermost loop of \<^verbatim>\<open>checkPermissions\<close>, on the loop's state:
  \<^verbatim>\<open>permissionsExist\<close> and what has been called and logged so far.
  \<^verbatim>\<open>permissionsExist = checkPermissionExist(...) && permissionsExist\<close> evaluates the
  call first, so the query is made and reported whatever \<^verbatim>\<open>permissionsExist\<close> holds.
\<close>

definition permission_query ::
  "config \<Rightarrow> 'e cluster \<Rightarrow> string \<Rightarrow> string \<Rightarrow> string \<Rightarrow> bool \<times> event list \<Rightarrow> bool \<times> event list" where
  "permission_query c k group' resource verb st =
     (let (permissionsExist, tr) = st;
          (exist, err) = CanI k (MizuResourcesNamespace c) resource verb group';
          (ok, lg) = checkPermissionExist group' resource verb exist err
      in (ok \<and> permissionsExist,
          tr @ Call (CanI_call (MizuResourcesNamespace c) resource verb group') # lg))"

text \<open>The four nested \<^verbatim>\<open>for ... range\<close> loops of \<^verbatim>\<open>checkPermissions\<close>.\<close>

definition checkPermissions :: "config \<Rightarrow> 'e cluster \<Rightarrow> PolicyRule list \<Rightarrow> bool \<times> event list" where
  "checkPermissions c k rules =
     foldl (\<lambda>st rule.
       foldl (\<lambda>st group'.
         foldl (\<lambda>st resource.
           foldl (\<lambda>st verb. permission_query c k group' resource verb st)
             st (Verbs rule))
           st (Resources rule))
         st (APIGroups rule))
       (True, []) rules"

section \<open>API reachability and version\<close>

text \<open>
  \<^verbatim>\<open>checkKubernetesApi\<close> returns the provider, the version and \<^verbatim>\<open>checkPassed\<close>. The
  provider is the record of answers itself, so the model returns the version pointer
  (\<open>None\<close> is \<^verbatim>\<open>nil\<close>) and the boolean.
\<close>

definition checkKubernetesApi :: "'e cluster \<Rightarrow> (string option \<times> bool) \<times> event list" where
  "checkKubernetesApi k =
     (case NewProvider k of
        Some err \<Rightarrow>
          ((None, False),
           [Infof (Section ''kubernetes-api''), Call NewProvider_call, Errorf (CantInitClient err)])
      | None \<Rightarrow>
          (case GetKubernetesVersion k of
             (kubernetesVersion, Some err) \<Rightarrow>
               ((None, False),
                [Infof (Section ''kubernetes-api''), Call NewProvider_call, Infof CanInitClient,
                 Call GetKubernetesVersion_call, Errorf (CantQueryApi err)])
           | (kubernetesVersion, None) \<Rightarrow>
               ((kubernetesVersion, True),
                [Infof (Section ''kubernetes-api''), Call NewProvider_call, Infof CanInitClient,
                 Call GetKubernetesVersion_call, Infof CanQueryApi])))"

definition checkKubernetesVersion :: "'e cluster \<Rightarrow> string option \<Rightarrow> bool \<times> event list" where
  "checkKubernetesVersion k kubernetesVersion =
     (case ValidateKubernetesVersion k kubernetesVersion of
        Some err \<Rightarrow>
          (False,
           [Infof (Section ''kubernetes-version''),
            Call (ValidateKubernetesVersion_call kubernetesVersion), Errorf (NotMinimumVersion err)])
      | None \<Rightarrow>
          (True,
           [Infof (Section ''kubernetes-version''),
            Call (ValidateKubernetesVersion_call kubernetesVersion), Infof IsMinimumVersion]))"

section \<open>Connectivity\<close>

text \<open>
  \<^verbatim>\<open>checkProxy\<close>: \<^verbatim>\<open>defer cancel()\<close> runs on every return, so \<open>cancel_call\<close> ends every
  branch; \<^verbatim>\<open>httpServer.Shutdown\<close> stands after the probe, on the last path only.
\<close>

definition checkProxy :: "config \<Rightarrow> 'e cluster \<Rightarrow> string \<Rightarrow> error option \<times> event list" where
  "checkProxy c k serverUrl =
     (case StartProxy k of
        Some err \<Rightarrow> (Some err, [Call StartProxy_call, Call cancel_call])
      | None \<Rightarrow>
          (case TestConnection k Proxy of
             Some err \<Rightarrow>
               (Some err,
                [Call StartProxy_call, Call (TestConnection_call Proxy serverUrl), Call cancel_call])
           | None \<Rightarrow>
               (case Shutdown k of
                  Some err \<Rightarrow>
                    (None,
                     [Call StartProxy_call, Call (TestConnection_call Proxy serverUrl),
                      Call Shutdown_call, Debugf (ProxyStopError err), Call cancel_call])
                | None \<Rightarrow>
                    (None,
                     [Call StartProxy_call, Call (TestConnection_call Proxy serverUrl),
                      Call Shutdown_call, Call cancel_call]))))"

text \<open>\<^verbatim>\<open>checkPortForward\<close>: the same shape, with \<^verbatim>\<open>forwarder.Close()\<close> on the last path.\<close>

definition checkPortForward :: "config \<Rightarrow> 'e cluster \<Rightarrow> string \<Rightarrow> error option \<times> event list" where
  "checkPortForward c k serverUrl =
     (case NewPortForward k of
        Some err \<Rightarrow> (Some err, [Call NewPortForward_call, Call cancel_call])
      | None \<Rightarrow>
          (case TestConnection k PortForward of
             Some err \<Rightarrow>
               (Some err,
                [Call NewPortForward_call, Call (TestConnection_call PortForward serverUrl),
                 Call cancel_call])
           | None \<Rightarrow>
               (None,
                [Call NewPortForward_call, Call (TestConnection_call PortForward serverUrl),
                 Call Close_call, Call cancel_call])))"

definition checkServerConnection :: "config \<Rightarrow> 'e cluster \<Rightarrow> bool \<times> event list" where
  "checkServerConnection c k =
     (let serverUrl = GetApiServerUrl c (GuiPort c);
          t0 = [Infof (Section ''API-server-connectivity''),
                Call (TestConnection_call Direct serverUrl)]
      in case TestConnection k Direct of
           None \<Rightarrow> (True, t0 @ [Infof TunnelAvailable])
         | Some _ \<Rightarrow>
             (let connectedToApiServer = False;
                  (perr, tp) = checkProxy c k serverUrl;
                  (connectedToApiServer, lp) =
                    (case perr of
                       Some err \<Rightarrow> (connectedToApiServer, [Errorf (ProxyFailed err)])
                     | None \<Rightarrow> (True, [Infof ProxyConnected]));
                  (ferr, tf) = checkPortForward c k serverUrl;
                  (connectedToApiServer, lf) =
                    (case ferr of
                       Some err \<Rightarrow> (connectedToApiServer, [Errorf (PortForwardFailed err)])
                     | None \<Rightarrow> (True, [Infof PortForwardConnected]))
              in (connectedToApiServer, t0 @ tp @ lp @ tf @ lf)))"

section \<open>Resource existence\<close>

definition checkResourceExist ::
  "string \<Rightarrow> string \<Rightarrow> bool \<Rightarrow> error option \<Rightarrow> bool \<times> event list" where
  "checkResourceExist resourceName resourceType exist err =
     (case err of
        Some e \<Rightarrow> (False, [Errorf (ResourceCheckError resourceName resourceType e)])
      | None \<Rightarrow>
          if \<not> exist then (False, [Errorf (ResourceMissing resourceName resourceType)])
          else (True, [Infof (ResourceExists resourceName resourceType)]))"

text \<open>
  The \<^verbatim>\<open>for _, pod := range pods\<close> loop of \<^verbatim>\<open>checkPodResourcesExist\<close>, on the pair
  \<^verbatim>\<open>(tappers, notRunningTappers)\<close>. Both are Go \<^verbatim>\<open>int\<close>s that count the elements of a
  slice, whose length is an \<^verbatim>\<open>int\<close> itself: they do not wrap.
\<close>

definition count_tappers :: "'e cluster \<Rightarrow> pod list \<Rightarrow> int \<times> int" where
  "count_tappers k pods =
     foldl (\<lambda>(tappers, notRunningTappers) pod.
              (tappers + 1,
               if \<not> IsPodRunning k pod then notRunningTappers + 1 else notRunningTappers))
       (0, 0) pods"

definition checkPodResourcesExist :: "config \<Rightarrow> 'e cluster \<Rightarrow> bool \<times> event list" where
  "checkPodResourcesExist c k =
     (let ns = MizuResourcesNamespace c;
          t1 = [Call (ListPodsByAppLabel_call ns (ApiServerPodName c))]
      in case ListPodsByAppLabel k ns (ApiServerPodName c) of
           (pods, Some err) \<Rightarrow> (False, t1 @ [Errorf (PodCheckError (ApiServerPodName c) err)])
         | ([], None) \<Rightarrow> (False, t1 @ [Errorf (PodMissing (ApiServerPodName c))])
         | (pod0 # _, None) \<Rightarrow>
             if \<not> IsPodRunning k pod0
             then (False, t1 @ [Errorf (PodNotRunning (ApiServerPodName c))])
             else
               (let t2 = t1 @ [Infof (PodRunningMsg (ApiServerPodName c)),
                               Call (ListPodsByAppLabel_call ns (TapperPodName c))]
                in case ListPodsByAppLabel k ns (TapperPodName c) of
                     (pods, Some err) \<Rightarrow>
                       (False, t2 @ [Errorf (PodsCheckError (TapperPodName c) err)])
                   | (pods, None) \<Rightarrow>
                       (let (tappers, notRunningTappers) = count_tappers k pods
                        in if notRunningTappers > 0
                           then (False,
                                 t2 @ [Errorf (PodsNotRunning (TapperPodName c)
                                                 notRunningTappers tappers)])
                           else (True, t2 @ [Infof (PodsRunning (TapperPodName c) tappers)]))))"

text \<open>
  \<^verbatim>\<open>checkK8sResources\<close>. Each line \<^verbatim>\<open>allResourcesExist = check(...) && allResourcesExist\<close>
  makes its query and its report before it looks at \<^verbatim>\<open>allResourcesExist\<close>.
\<close>

definition checkK8sResources :: "config \<Rightarrow> 'e cluster \<Rightarrow> bool \<times> event list" where
  "checkK8sResources c k =
     (let ns = MizuResourcesNamespace c;
          (exist, err) = DoesNamespaceExist k ns;
          (r, l1) = checkResourceExist ns ''namespace'' exist err;
          allResourcesExist = r;
          (exist, err) = DoesConfigMapExist k ns (ConfigMapName c);
          (r, l2) = checkResourceExist (ConfigMapName c) ''config map'' exist err;
          allResourcesExist = (r \<and> allResourcesExist);
          (exist, err) = DoesServiceAccountExist k ns (ServiceAccountName c);
          (r, l3) = checkResourceExist (ServiceAccountName c) ''service account'' exist err;
          allResourcesExist = (r \<and> allResourcesExist);
          (allResourcesExist, l45) =
            (if IsNsRestrictedMode c then
               (let (exist, err) = DoesRoleExist k ns (RoleName c);
                    (r, l4) = checkResourceExist (RoleName c) ''role'' exist err;
                    allResourcesExist = (r \<and> allResourcesExist);
                    (exist, err) = DoesRoleBindingExist k ns (RoleBindingName c);
                    (r, l5) = checkResourceExist (RoleBindingName c) ''role binding'' exist err;
                    allResourcesExist = (r \<and> allResourcesExist)
                in (allResourcesExist,
                    Call (DoesRoleExist_call ns (RoleName c)) # l4 @
                    Call (DoesRoleBindingExist_call ns (RoleBindingName c)) # l5))
             else
               (let (exist, err) = DoesClusterRoleExist k (ClusterRoleName c);
                    (r, l4) = checkResourceExist (ClusterRoleName c) ''cluster role'' exist err;
                    allResourcesExist = (r \<and> allResourcesExist);
                    (exist, err) = DoesClusterRoleBindingExist k (ClusterRoleBindingName c);
                    (r, l5) = checkResourceExist (ClusterRoleBindingName c)
                                ''cluster role binding'' exist err;
                    allResourcesExist = (r \<and> allResourcesExist)
                in (allResourcesExist,
                    Call (DoesClusterRoleExist_call (ClusterRoleName c)) # l4 @
                    Call (DoesClusterRoleBindingExist_call (ClusterRoleBindingName c)) # l5)));
          (exist, err) = DoesServiceExist k ns (ApiServerPodName c);
          (r, l6) = checkResourceExist (ApiServerPodName c) ''service'' exist err;
          allResourcesExist = (r \<and> allResourcesExist);
          (r, l7) = checkPodResourcesExist c k;
          allResourcesExist = (r \<and> allResourcesExist)
      in (allResourcesExist,
          Infof (Section ''k8s-components'') #
          Call (DoesNamespaceExist_call ns) # l1 @
          Call (DoesConfigMapExist_call ns (ConfigMapName c)) # l2 @
          Call (DoesServiceAccountExist_call ns (ServiceAccountName c)) # l3 @
          l45 @
          Call (DoesServiceExist_call ns (ApiServerPodName c)) # l6 @
          l7))"

section \<open>The permission stage\<close>

definition getDecodedObject ::
  "'e cluster \<Rightarrow> string \<Rightarrow> (runtime_object option \<times> error option) \<times> event list" where
  "getDecodedObject k data =
     (case Decode k data of
        (obj, Some err) \<Rightarrow> ((None, Some err), [Call (Decode_call data)])
      | (obj, None) \<Rightarrow> ((Some obj, None), [Call (Decode_call data)]))"

text \<open>
  \<^verbatim>\<open>checkK8sTapPermissions\<close>. The type assertions \<^verbatim>\<open>obj.(*rbac.Role)\<close> and
  \<^verbatim>\<open>obj.(*rbac.ClusterRole)\<close> panic on an object of another kind: the result \<open>None\<close> is
  that panic, \<open>Some b\<close> the boolean returned.
\<close>

definition checkK8sTapPermissions :: "config \<Rightarrow> 'e cluster \<Rightarrow> bool option \<times> event list" where
  "checkK8sTapPermissions c k =
     (let filePath =
            (if IsNsRestrictedMode c then ''permissionFiles/permissions-ns-tap.yaml''
             else ''permissionFiles/permissions-all-namespaces-tap.yaml'');
          t0 = [Infof (Section ''kubernetes-permissions''), Call (ReadFile_call filePath)]
      in case ReadFile k filePath of
           (data, Some err) \<Rightarrow> (Some False, t0 @ [Errorf (PermissionsError err)])
         | (data, None) \<Rightarrow>
             (case getDecodedObject k data of
                ((obj, Some err), td) \<Rightarrow> (Some False, t0 @ td @ [Errorf (PermissionsError err)])
              | ((obj, None), td) \<Rightarrow>
                  (if IsNsRestrictedMode c then
                     (case obj of
                        Some (Role rules) \<Rightarrow>
                          (let (r, tp) = checkPermissions c k rules in (Some r, t0 @ td @ tp))
                      | _ \<Rightarrow> (None, t0 @ td))
                   else
                     (case obj of
                        Some (ClusterRole rules) \<Rightarrow>
                          (let (r, tp) = checkPermissions c k rules in (Some r, t0 @ td @ tp))
                      | _ \<Rightarrow> (None, t0 @ td)))))"

section \<open>The image-pull stage\<close>

text \<open>
  The \<^verbatim>\<open>for { select { ... } }\<close> of \<^verbatim>\<open>checkImagePulled\<close>, on the outcomes the
  \<^verbatim>\<open>select\<close> takes. \<open>eventChan\<close> and \<open>errorChan\<close> say whether the channel variable still
  holds the channel: the loop sets it to \<^verbatim>\<open>nil\<close> when the channel is closed, and a
  \<^verbatim>\<open>nil\<close> channel is never ready, so an outcome of it is passed over. The timer always
  fires; when nothing is left to take, the timer's case is what the \<^verbatim>\<open>select\<close> takes.
  The result is the \<^verbatim>\<open>error\<close> returned (\<open>None\<close> is \<^verbatim>\<open>nil\<close>, the pod is running).
\<close>

fun select_loop ::
  "('e \<Rightarrow> error + pod) \<Rightarrow> bool \<Rightarrow> bool \<Rightarrow> 'e select_outcome list \<Rightarrow> error option" where
  "select_loop toPod eventChan errorChan [] = Some ''image not pulled in time''"
| "select_loop toPod eventChan errorChan (EventRecv wEvent # rest) =
     (if \<not> eventChan then select_loop toPod eventChan errorChan rest
      else case toPod wEvent of
             Inl err \<Rightarrow> Some err
           | Inr pod \<Rightarrow>
               if Phase pod = PodRunning then None
               else select_loop toPod eventChan errorChan rest)"
| "select_loop toPod eventChan errorChan (EventClosed # rest) =
     select_loop toPod False errorChan rest"
| "select_loop toPod eventChan errorChan (ErrorRecv err # rest) =
     (if \<not> errorChan then select_loop toPod eventChan errorChan rest else Some err)"
| "select_loop toPod eventChan errorChan (ErrorClosed # rest) =
     select_loop toPod eventChan False rest"
| "select_loop toPod eventChan errorChan (TimerFired # rest) =
     Some ''image not pulled in time''"

definition checkImagePulled ::
  "config \<Rightarrow> 'e cluster \<Rightarrow> string \<Rightarrow> error option \<times> event list" where
  "checkImagePulled c k podName =
     (select_loop (ToPod k) True True (FilteredWatch k),
      [Call (FilteredWatch_call (MizuResourcesNamespace c) podName)])"

definition createImagePullInClusterResources ::
  "config \<Rightarrow> 'e cluster \<Rightarrow> string \<Rightarrow> error option \<times> event list" where
  "createImagePullInClusterResources c k podName =
     (let ns = MizuResourcesNamespace c;
          (nerr, tn) =
            (if \<not> IsNsRestrictedMode c
             then (CreateNamespace k ns, [Call (CreateNamespace_call ns)])
             else (None, []))
      in case nerr of
           Some err \<Rightarrow> (Some err, tn)
         | None \<Rightarrow>
             (case CreatePod k ns podName of
                Some err \<Rightarrow> (Some err, tn @ [Call (CreatePod_call ns podName)])
              | None \<Rightarrow> (None, tn @ [Call (CreatePod_call ns podName)])))"

definition removeImagePullInClusterResources ::
  "config \<Rightarrow> 'e cluster \<Rightarrow> string \<Rightarrow> event list" where
  "removeImagePullInClusterResources c k podName =
     (let ns = MizuResourcesNamespace c;
          t1 = Call (RemovePod_call ns podName) #
               (case RemovePod k ns podName of
                  Some err \<Rightarrow> [Debugf (RemoveResourcesError err)]
                | None \<Rightarrow> []);
          t2 = (if \<not> IsNsRestrictedMode c
                then Call (RemoveNamespace_call ns) #
                     (case RemoveNamespace k ns of
                        Some err \<Rightarrow> [Debugf (RemoveResourcesError err)]
                      | None \<Rightarrow> [])
                else [])
      in t1 @ t2)"

text \<open>
  \<^verbatim>\<open>checkImagePullInCluster\<close>: the \<^verbatim>\<open>defer\<close> is registered before anything else, so
  what it calls and logs comes last on every return.
\<close>

definition checkImagePullInCluster :: "config \<Rightarrow> 'e cluster \<Rightarrow> bool \<times> event list" where
  "checkImagePullInCluster c k =
     (let podName = ''image-pull-in-cluster'';
          deferred = removeImagePullInClusterResources c k podName;
          (r, t) =
            (case createImagePullInClusterResources c k podName of
               (Some err, tc) \<Rightarrow> (False, tc @ [Errorf (CreateResourcesError err)])
             | (None, tc) \<Rightarrow>
                 (case checkImagePulled c k podName of
                    (Some err, tw) \<Rightarrow> (False, tc @ tw @ [Errorf (ImageNotPulled err)])
                  | (None, tw) \<Rightarrow> (True, tc @ tw @ [Infof ImagePulled])))
      in (r, Infof (Section ''image-pull-in-cluster'') # t @ deferred))"

section \<open>The orchestrator\<close>

text \<open>
  \<^verbatim>\<open>runMizuCheck\<close> returns nothing: its verdict is the last value of \<^verbatim>\<open>checkPassed\<close>,
  which picks the closing log line. The model returns that value (\<open>None\<close> when the
  permission stage panicked, which leaves no verdict) and everything called and logged;
  \<^verbatim>\<open>defer cancel()\<close> comes last.
\<close>

definition runMizuCheck :: "config \<Rightarrow> 'e cluster \<Rightarrow> bool option \<times> event list" where
  "runMizuCheck c k =
     (let t0 = [Infof MizuChecks];
          ((kubernetesVersion, checkPassed), t1) = checkKubernetesApi k;
          (checkPassed, t2) =
            (if checkPassed then checkKubernetesVersion k kubernetesVersion
             else (checkPassed, []));
          (verdict, t34) =
            (if PreTap c then
               (case (if checkPassed then checkK8sTapPermissions c k
                      else (Some checkPassed, [])) of
                  (None, t3) \<Rightarrow> (None, t3)
                | (Some checkPassed, t3) \<Rightarrow>
                    (let (checkPassed, t4) =
                           (if checkPassed then checkImagePullInCluster c k
                            else (checkPassed, []))
                     in (Some checkPassed, t3 @ t4)))
             else
               (let (checkPassed, t3) =
                      (if checkPassed then checkK8sResources c k else (checkPassed, []));
                    (checkPassed, t4) =
                      (if checkPassed then checkServerConnection c k else (checkPassed, []))
                in (Some checkPassed, t3 @ t4)))
      in case verdict of
           None \<Rightarrow> (None, t0 @ t1 @ t2 @ t34 @ [Call cancel_call])
         | Some checkPassed \<Rightarrow>
             (Some checkPassed,
              t0 @ t1 @ t2 @ t34 @
              [if checkPassed then Infof StatusGreen else Errorf StatusRed, Call cancel_call]))"

section \<open>Reading a run\<close>

text \<open>The calls of a run, in order; the stage headers of a run, in order.\<close>

definition call_of :: "event \<Rightarrow> call option" where
  "call_of e = (case e of Call q \<Rightarrow> Some q | _ \<Rightarrow> None)"

definition calls_of :: "event list \<Rightarrow> call list" where
  "calls_of tr = List.map_filter call_of tr"

definition section_of :: "event \<Rightarrow> string option" where
  "section_of e = (case e of Infof (Section s) \<Rightarrow> Some s | _ \<Rightarrow> None)"

definition stages_run :: "event list \<Rightarrow> string list" where
  "stages_run tr = List.map_filter section_of tr"

text \<open>
  The permission queries of a run as \<open>(namespace, resource, verb, group)\<close>, and the
  \<open>(group, resource, verb)\<close> of every permission report.
\<close>

definition canI_of :: "event \<Rightarrow> (string \<times> string \<times> string \<times> string) option" where
  "canI_of e = (case e of Call (CanI_call ns r v g) \<Rightarrow> Some (ns, r, v, g) | _ \<Rightarrow> None)"

definition reported_of :: "event \<Rightarrow> (string \<times> string \<times> string) option" where
  "reported_of e =
     (case e of
        Errorf (PermissionCheckError v r g err) \<Rightarrow> Some (g, r, v)
      | Errorf (Cannot v r g) \<Rightarrow> Some (g, r, v)
      | Infof (Can v r g) \<Rightarrow> Some (g, r, v)
      | _ \<Rightarrow> None)"

section \<open>The notions of the specification\<close>

text \<open>
  The cross product of one rule, \<open>(group, resource, verb)\<close> with the verbs running
  fastest, and the tuples of a list of rules: one after the other, nothing merged.
\<close>

definition rule_tuples :: "PolicyRule \<Rightarrow> (string \<times> string \<times> string) list" where
  "rule_tuples rule =
     concat (map (\<lambda>g. concat (map (\<lambda>r. map (\<lambda>v. (g, r, v)) (Verbs rule)) (Resources rule)))
       (APIGroups rule))"

definition all_tuples :: "PolicyRule list \<Rightarrow> (string \<times> string \<times> string) list" where
  "all_tuples rules = concat (map rule_tuples rules)"

definition allowed :: "config \<Rightarrow> 'e cluster \<Rightarrow> string \<times> string \<times> string \<Rightarrow> bool" where
  "allowed c k t =
     (case t of (g, r, v) \<Rightarrow> CanI k (MizuResourcesNamespace c) r v g = (True, None))"

text \<open>What one tuple leaves in the run: its query, then its report.\<close>

definition tuple_events :: "config \<Rightarrow> 'e cluster \<Rightarrow> string \<times> string \<times> string \<Rightarrow> event list" where
  "tuple_events c k t =
     (case t of (g, r, v) \<Rightarrow>
        Call (CanI_call (MizuResourcesNamespace c) r v g) #
        snd (checkPermissionExist g r v (fst (CanI k (MizuResourcesNamespace c) r v g))
               (snd (CanI k (MizuResourcesNamespace c) r v g))))"

text \<open>
  Gating: of a list of stages, each with what it returns (\<open>None\<close> for a stage that
  panics) and what it calls and logs, the ones that run. A stage runs when every stage
  before it returned true.
\<close>

fun gated :: "(string \<times> bool option \<times> 'a) list \<Rightarrow> (string \<times> bool option \<times> 'a) list" where
  "gated [] = []"
| "gated ((name, r, t) # rest) = (name, r, t) # (if r = Some True then gated rest else [])"

text \<open>
  The stages of a run in their fixed order, each with what it returns and what it calls
  and logs when it runs.
\<close>

definition stage_plan :: "config \<Rightarrow> 'e cluster \<Rightarrow> (string \<times> bool option \<times> event list) list" where
  "stage_plan c k =
     [(''kubernetes-api'',
       Some (snd (fst (checkKubernetesApi k))), snd (checkKubernetesApi k)),
      (''kubernetes-version'',
       Some (fst (checkKubernetesVersion k (fst (fst (checkKubernetesApi k))))),
       snd (checkKubernetesVersion k (fst (fst (checkKubernetesApi k)))))] @
     (if PreTap c
      then [(''kubernetes-permissions'',
             fst (checkK8sTapPermissions c k), snd (checkK8sTapPermissions c k)),
            (''image-pull-in-cluster'',
             Some (fst (checkImagePullInCluster c k)), snd (checkImagePullInCluster c k))]
      else [(''k8s-components'',
             Some (fst (checkK8sResources c k)), snd (checkK8sResources c k)),
            (''API-server-connectivity'',
             Some (fst (checkServerConnection c k)), snd (checkServerConnection c k))])"

text \<open>The end of a run: the closing line that the verdict picks, and \<^verbatim>\<open>defer cancel()\<close>.\<close>

definition closing :: "bool option \<Rightarrow> event list" where
  "closing verdict =
     (case verdict of
        None \<Rightarrow> [Call cancel_call]
      | Some checkPassed \<Rightarrow>
          [if checkPassed then Infof StatusGreen else Errorf StatusRed, Call cancel_call])"

text \<open>One entry of the resource catalog in a run: its query, then its report.\<close>

definition resource_entry :: "call \<Rightarrow> string \<Rightarrow> string \<Rightarrow> bool \<times> error option \<Rightarrow> event list" where
  "resource_entry q resourceName resourceType answer =
     Call q # snd (checkResourceExist resourceName resourceType (fst answer) (snd answer))"

text \<open>The server pod is listed without error, exists, and the first one listed runs.\<close>

definition server_pod_ok :: "config \<Rightarrow> 'e cluster \<Rightarrow> bool" where
  "server_pod_ok c k =
     (case ListPodsByAppLabel k (MizuResourcesNamespace c) (ApiServerPodName c) of
        (pod0 # _, None) \<Rightarrow> IsPodRunning k pod0
      | _ \<Rightarrow> False)"

text \<open>The worker pods are listed without error and every one of them runs.\<close>

definition tapper_pods_ok :: "config \<Rightarrow> 'e cluster \<Rightarrow> bool" where
  "tapper_pods_ok c k =
     (case ListPodsByAppLabel k (MizuResourcesNamespace c) (TapperPodName c) of
        (pods, None) \<Rightarrow> list_all (IsPodRunning k) pods
      | (pods, Some err) \<Rightarrow> False)"

text \<open>
  An outcome after which the watcher goes on: a pod event that converts to a pod that
  is not running, or the closing of a channel.
\<close>

definition keeps_watching :: "('e \<Rightarrow> error + pod) \<Rightarrow> 'e select_outcome \<Rightarrow> bool" where
  "keeps_watching toPod out =
     (case out of
        EventRecv wEvent \<Rightarrow>
          (case toPod wEvent of Inl err \<Rightarrow> False | Inr pod \<Rightarrow> Phase pod \<noteq> PodRunning)
      | EventClosed \<Rightarrow> True
      | ErrorRecv err \<Rightarrow> False
      | ErrorClosed \<Rightarrow> True
      | TimerFired \<Rightarrow> False)"

section \<open>Example inputs\<close>

definition example_config :: config where
  "example_config =
     \<lparr>PreTap = False, IsNsRestrictedMode = False, MizuResourcesNamespace = ''mizu'',
      GuiPort = 8899, ProxyHost = ''127.0.0.1'', GetApiServerUrl = (\<lambda>port. ''localhost''),
      ConfigMapName = ''mizu-config'', ServiceAccountName = ''mizu-sa'',
      RoleName = ''mizu-role'', RoleBindingName = ''mizu-rb'',
      ClusterRoleName = ''mizu-cr'', ClusterRoleBindingName = ''mizu-crb'',
      ApiServerPodName = ''mizu-api-server'', TapperPodName = ''mizu-tapper''\<rparr>"

definition example_rules :: "PolicyRule list" where
  "example_rules =
     [\<lparr>APIGroups = [''core''], Resources = [''pods'', ''services''], Verbs = [''list'', ''get'']\<rparr>,
      \<lparr>APIGroups = [''apps''], Resources = [''daemonsets''], Verbs = [''create'']\<rparr>,
      \<lparr>APIGroups = [''core''], Resources = [''pods''], Verbs = [''list'']\<rparr>]"

definition running_pod :: pod where
  "running_pod = \<lparr>Name = ''p'', Phase = PodRunning\<rparr>"

definition pending_pod :: pod where
  "pending_pod = \<lparr>Name = ''p'', Phase = PodPending\<rparr>"

text \<open>
  A cluster where everything is in place. Its watch events are numbers: \<open>0\<close> is a
  pending pod, \<open>1\<close> a running pod, any other number an object that is not a pod.
\<close>

definition example_ToPod :: "nat \<Rightarrow> error + pod" where
  "example_ToPod n =
     (if n = 0 then Inr pending_pod else if n = 1 then Inr running_pod
      else Inl ''invalid object type'')"

definition healthy_cluster :: "nat cluster" where
  "healthy_cluster =
     \<lparr>NewProvider = None, GetKubernetesVersion = (Some ''1.21.0'', None),
      ValidateKubernetesVersion = (\<lambda>v. None), TestConnection = (\<lambda>s. None),
      StartProxy = None, Shutdown = None, NewPortForward = None,
      DoesNamespaceExist = (\<lambda>ns. (True, None)),
      DoesConfigMapExist = (\<lambda>ns n. (True, None)),
      DoesServiceAccountExist = (\<lambda>ns n. (True, None)),
      DoesRoleExist = (\<lambda>ns n. (True, None)),
      DoesRoleBindingExist = (\<lambda>ns n. (True, None)),
      DoesClusterRoleExist = (\<lambda>n. (True, None)),
      DoesClusterRoleBindingExist = (\<lambda>n. (True, None)),
      DoesServiceExist = (\<lambda>ns n. (True, None)),
      ListPodsByAppLabel = (\<lambda>ns label. ([running_pod], None)),
      IsPodRunning = (\<lambda>p. Phase p = PodRunning),
      ReadFile = (\<lambda>path. (''rules'', None)),
      Decode = (\<lambda>data. (ClusterRole example_rules, None)),
      CanI = (\<lambda>ns r v g. (True, None)),
      CreateNamespace = (\<lambda>ns. None), CreatePod = (\<lambda>ns n. None),
      RemovePod = (\<lambda>ns n. None), RemoveNamespace = (\<lambda>ns. None),
      FilteredWatch = [EventRecv 0, EventRecv 1],
      ToPod = example_ToPod\<rparr>"

text \<open>The same cluster, with an API server that no transport reaches.\<close>

definition unreachable_cluster :: "nat cluster" where
  "unreachable_cluster = healthy_cluster\<lparr>TestConnection := (\<lambda>s. Some ''connection refused'')\<rparr>"

text \<open>The healthy cluster with other pods under the worker label, or the server label.\<close>

definition cluster_with_tappers :: "pod list \<Rightarrow> nat cluster" where
  "cluster_with_tappers pods =
     healthy_cluster\<lparr>ListPodsByAppLabel :=
       (\<lambda>ns label. if label = ''mizu-tapper'' then (pods, None) else ([running_pod], None))\<rparr>"

definition cluster_without_server_pod :: "nat cluster" where
  "cluster_without_server_pod =
     healthy_cluster\<lparr>ListPodsByAppLabel :=
       (\<lambda>ns label. if label = ''mizu-api-server'' then ([], None) else ([running_pod], None))\<rparr>"

text \<open>The healthy cluster with a Kubernetes version below the minimum.\<close>

definition old_cluster :: "nat cluster" where
  "old_cluster = healthy_cluster\<lparr>ValidateKubernetesVersion := (\<lambda>v. Some ''too old'')\<rparr>"

section \<open>Verification: the permission verifier\<close>

lemma foldl_concat_map:
  "foldl f s (concat (map g xs)) = foldl (\<lambda>s x. foldl f s (g x)) s xs"
  by (induction xs arbitrary: s) simp_all

lemma foldl_map_fun: "foldl f s (map g xs) = foldl (\<lambda>s x. f s (g x)) s xs"
  by (induction xs arbitrary: s) simp_all

lemma map_filter_append:
  "List.map_filter f (xs @ ys) = List.map_filter f xs @ List.map_filter f ys"
  by (simp add: List.map_filter_def)

text \<open>The four nested loops visit the tuples of the rules, in order.\<close>

lemma checkPermissions_flat:
  "checkPermissions c k rules =
     foldl (\<lambda>st (g, r, v). permission_query c k g r v st) (True, []) (all_tuples rules)"
  unfolding checkPermissions_def all_tuples_def rule_tuples_def
  by (simp add: foldl_concat_map foldl_map_fun)

lemma permission_query_eq:
  "permission_query c k g r v (b, tr) =
     (allowed c k (g, r, v) \<and> b, tr @ tuple_events c k (g, r, v))"
  by (cases "CanI k (MizuResourcesNamespace c) r v g")
     (auto simp: permission_query_def allowed_def tuple_events_def checkPermissionExist_def
           split: option.splits)

lemma foldl_permission_query:
  "foldl (\<lambda>st (g, r, v). permission_query c k g r v st) (b, tr) ts =
     (list_all (allowed c k) ts \<and> b, tr @ concat (map (tuple_events c k) ts))"
  by (induction ts arbitrary: b tr) (auto simp: permission_query_eq)

lemma checkPermissions_eq:
  "checkPermissions c k rules =
     (list_all (allowed c k) (all_tuples rules),
      concat (map (tuple_events c k) (all_tuples rules)))"
  by (simp add: checkPermissions_flat foldl_permission_query)

lemma canI_tuple_events:
  "List.map_filter canI_of (tuple_events c k (g, r, v)) = [(MizuResourcesNamespace c, r, v, g)]"
  by (simp add: tuple_events_def canI_of_def checkPermissionExist_def split: option.splits)

lemma reported_tuple_events:
  "List.map_filter reported_of (tuple_events c k (g, r, v)) = [(g, r, v)]"
  by (simp add: tuple_events_def reported_of_def checkPermissionExist_def split: option.splits)

lemma length_tuple_events: "length (tuple_events c k t) = 2"
  by (cases t) (simp add: tuple_events_def checkPermissionExist_def split: option.splits)

lemma map_filter_canI_events:
  "List.map_filter canI_of (concat (map (tuple_events c k) ts)) =
     map (\<lambda>(g, r, v). (MizuResourcesNamespace c, r, v, g)) ts"
  by (induction ts) (auto simp: map_filter_append canI_tuple_events)

lemma map_filter_reported_events:
  "List.map_filter reported_of (concat (map (tuple_events c k) ts)) = ts"
  by (induction ts) (auto simp: map_filter_append reported_tuple_events)

lemma length_rule_tuples:
  "length (rule_tuples rule) =
     length (APIGroups rule) * length (Resources rule) * length (Verbs rule)"
  by (simp add: rule_tuples_def length_concat comp_def sum_list_triv)

lemma length_all_tuples:
  "length (all_tuples rules) =
     (\<Sum>rule\<leftarrow>rules. length (APIGroups rule) * length (Resources rule) * length (Verbs rule))"
  by (simp add: all_tuples_def length_concat comp_def length_rule_tuples)

text \<open>
  C3. For every list of rules, the permission queries of \<open>checkPermissions\<close> are, in
  order, one for each \<open>(group, resource, verb)\<close> of each rule, a tuple that two rules
  share being queried for each of them; their number is the sum over the rules of
  \<open>|APIGroups| * |Resources| * |Verbs|\<close>; each tuple has its own report, and nothing
  else is called or logged; and the result is true exactly when every query answered
  allowed, with no error.
\<close>

theorem checkPermissions_queries:
  "List.map_filter canI_of (snd (checkPermissions c k rules)) =
     map (\<lambda>(g, r, v). (MizuResourcesNamespace c, r, v, g)) (all_tuples rules)
   \<and> length (List.map_filter canI_of (snd (checkPermissions c k rules))) =
     (\<Sum>rule\<leftarrow>rules. length (APIGroups rule) * length (Resources rule) * length (Verbs rule))
   \<and> List.map_filter reported_of (snd (checkPermissions c k rules)) = all_tuples rules
   \<and> length (snd (checkPermissions c k rules)) = 2 * length (all_tuples rules)
   \<and> (fst (checkPermissions c k rules) \<longleftrightarrow>
        (\<forall>(g, r, v) \<in> set (all_tuples rules).
           CanI k (MizuResourcesNamespace c) r v g = (True, None)))"
proof -
  let ?tr = "snd (checkPermissions c k rules)"
  have tr: "?tr = concat (map (tuple_events c k) (all_tuples rules))"
    by (simp add: checkPermissions_eq)
  have q: "List.map_filter canI_of ?tr =
      map (\<lambda>(g, r, v). (MizuResourcesNamespace c, r, v, g)) (all_tuples rules)"
    by (simp add: tr map_filter_canI_events)
  have n: "length (List.map_filter canI_of ?tr) =
      (\<Sum>rule\<leftarrow>rules. length (APIGroups rule) * length (Resources rule) * length (Verbs rule))"
    by (simp add: q length_all_tuples)
  have rep: "List.map_filter reported_of ?tr = all_tuples rules"
    by (simp add: tr map_filter_reported_events)
  have len: "length ?tr = 2 * length (all_tuples rules)"
    by (simp add: tr length_concat comp_def length_tuple_events sum_list_triv)
  have res: "fst (checkPermissions c k rules) \<longleftrightarrow>
      (\<forall>(g, r, v) \<in> set (all_tuples rules).
         CanI k (MizuResourcesNamespace c) r v g = (True, None))"
    by (auto simp: checkPermissions_eq list_all_iff allowed_def)
  from q n rep len res show ?thesis by blast
qed

theorem checkPermissions_queries_witness:
  "fst (checkPermissions example_config healthy_cluster example_rules)
   \<and> List.map_filter canI_of (snd (checkPermissions example_config healthy_cluster example_rules)) =
       [(''mizu'', ''pods'', ''list'', ''core''), (''mizu'', ''pods'', ''get'', ''core''),
        (''mizu'', ''services'', ''list'', ''core''), (''mizu'', ''services'', ''get'', ''core''),
        (''mizu'', ''daemonsets'', ''create'', ''apps''), (''mizu'', ''pods'', ''list'', ''core'')]
   \<and> length (snd (checkPermissions example_config healthy_cluster example_rules)) = 12"
  using checkPermissions_queries [of example_config healthy_cluster example_rules]
  by (simp add: all_tuples_def rule_tuples_def example_rules_def example_config_def
        healthy_cluster_def)

section \<open>Verification: the readiness watcher\<close>

text \<open>
  Outcomes after which the watcher goes on leave the loop where it was, but for the
  channels that were closed among them.
\<close>

lemma select_loop_keeps_watching:
  "list_all (keeps_watching toPod) pre \<Longrightarrow>
   select_loop toPod eventChan errorChan (pre @ rest) =
   select_loop toPod (eventChan \<and> EventClosed \<notin> set pre) (errorChan \<and> ErrorClosed \<notin> set pre) rest"
proof (induction pre arbitrary: eventChan errorChan)
  case Nil
  then show ?case by simp
next
  case (Cons out pre)
  then have pre: "list_all (keeps_watching toPod) pre" and out: "keeps_watching toPod out"
    by simp_all
  show ?case
  proof (cases out)
    case (EventRecv wEvent)
    with out show ?thesis
      by (auto simp: keeps_watching_def Cons.IH [OF pre] split: sum.splits)
  next
    case EventClosed
    then show ?thesis by (simp add: Cons.IH [OF pre])
  next
    case (ErrorRecv err)
    with out show ?thesis by (simp add: keeps_watching_def)
  next
    case ErrorClosed
    then show ?thesis by (simp add: Cons.IH [OF pre])
  next
    case TimerFired
    with out show ?thesis by (simp add: keeps_watching_def)
  qed
qed

lemma select_loop_timeout:
  "list_all (keeps_watching toPod) outs \<Longrightarrow>
   select_loop toPod eventChan errorChan outs = Some ''image not pulled in time''"
  using select_loop_keeps_watching [of toPod outs eventChan errorChan "[]"] by simp

text \<open>
  C4. Whatever the watcher is given: when a pod event whose phase is Running is
  received, the event channel still open and nothing before it but pod events that are
  not running and the closing of the error channel (so: before the timer and before any
  error), \<open>checkImagePulled\<close> returns \<^verbatim>\<open>nil\<close>, whatever would come after it, errors
  on the error channel included.
\<close>

theorem checkImagePulled_running_wins:
  assumes "FilteredWatch k = pre @ EventRecv wEvent # post"
    and "list_all (keeps_watching (ToPod k)) pre"
    and "EventClosed \<notin> set pre"
    and "ToPod k wEvent = Inr pod"
    and "Phase pod = PodRunning"
  shows "fst (checkImagePulled c k podName) = None"
proof -
  have "select_loop (ToPod k) True True (pre @ EventRecv wEvent # post) =
      select_loop (ToPod k) True (ErrorClosed \<notin> set pre) (EventRecv wEvent # post)"
    using select_loop_keeps_watching [OF assms(2)] assms(3) by simp
  also have "\<dots> = None"
    using assms(4,5) by simp
  finally show ?thesis
    by (simp add: checkImagePulled_def assms(1))
qed

theorem checkImagePulled_running_wins_witness:
  "fst (checkImagePulled example_config
          (healthy_cluster\<lparr>FilteredWatch :=
             [EventRecv 0, ErrorClosed, EventRecv 0, EventRecv 1, ErrorRecv ''watch failed'',
              EventRecv 2, TimerFired]\<rparr>)
          ''image-pull-in-cluster'') = None"
  using checkImagePulled_running_wins
    [of "healthy_cluster\<lparr>FilteredWatch :=
             [EventRecv 0, ErrorClosed, EventRecv 0, EventRecv 1, ErrorRecv ''watch failed'',
              EventRecv 2, TimerFired]\<rparr>"
        "[EventRecv 0, ErrorClosed, EventRecv 0]" 1 "[ErrorRecv ''watch failed'', EventRecv 2, TimerFired]"
        running_pod example_config "''image-pull-in-cluster''"]
  by (simp add: healthy_cluster_def example_ToPod_def keeps_watching_def running_pod_def
        pending_pod_def)

text \<open>
  C5. The closing of a channel does not end the watch: after outcomes that are only
  closings and pod events that are not running, an error on the error channel is still
  received when the event channel was closed among them, and a Running pod event is
  still received when the error channel was closed among them. When nothing else is
  received before the timer fires, both channels closed or not, the result is the
  timeout error.
\<close>

theorem checkImagePulled_closing_not_terminal:
  assumes "list_all (keeps_watching (ToPod k)) pre"
  shows "(FilteredWatch k = pre \<or> FilteredWatch k = pre @ TimerFired # post \<longrightarrow>
            fst (checkImagePulled c k podName) = Some ''image not pulled in time'')
       \<and> (EventClosed \<in> set pre \<and> ErrorClosed \<notin> set pre
            \<and> FilteredWatch k = pre @ ErrorRecv err # post \<longrightarrow>
            fst (checkImagePulled c k podName) = Some err)
       \<and> (ErrorClosed \<in> set pre \<and> EventClosed \<notin> set pre
            \<and> FilteredWatch k = pre @ EventRecv wEvent # post
            \<and> ToPod k wEvent = Inr pod \<and> Phase pod = PodRunning \<longrightarrow>
            fst (checkImagePulled c k podName) = None)"
proof (intro conjI impI)
  assume "FilteredWatch k = pre \<or> FilteredWatch k = pre @ TimerFired # post"
  then show "fst (checkImagePulled c k podName) = Some ''image not pulled in time''"
  proof
    assume "FilteredWatch k = pre"
    then show ?thesis
      using select_loop_timeout [OF assms] by (simp add: checkImagePulled_def)
  next
    assume "FilteredWatch k = pre @ TimerFired # post"
    then show ?thesis
      using select_loop_keeps_watching [OF assms, of True True "TimerFired # post"]
      by (simp add: checkImagePulled_def)
  qed
next
  assume "EventClosed \<in> set pre \<and> ErrorClosed \<notin> set pre
    \<and> FilteredWatch k = pre @ ErrorRecv err # post"
  then show "fst (checkImagePulled c k podName) = Some err"
    using select_loop_keeps_watching [OF assms, of True True "ErrorRecv err # post"]
    by (simp add: checkImagePulled_def)
next
  assume "ErrorClosed \<in> set pre \<and> EventClosed \<notin> set pre
    \<and> FilteredWatch k = pre @ EventRecv wEvent # post
    \<and> ToPod k wEvent = Inr pod \<and> Phase pod = PodRunning"
  then show "fst (checkImagePulled c k podName) = None"
    using select_loop_keeps_watching [OF assms, of True True "EventRecv wEvent # post"]
    by (simp add: checkImagePulled_def)
qed

theorem checkImagePulled_closing_not_terminal_witness:
  "fst (checkImagePulled example_config
          (healthy_cluster\<lparr>FilteredWatch := [EventRecv 0, EventClosed, ErrorClosed]\<rparr>)
          ''image-pull-in-cluster'') = Some ''image not pulled in time''
   \<and> fst (checkImagePulled example_config
          (healthy_cluster\<lparr>FilteredWatch := [EventClosed, ErrorRecv ''watch failed'']\<rparr>)
          ''image-pull-in-cluster'') = Some ''watch failed''
   \<and> fst (checkImagePulled example_config
          (healthy_cluster\<lparr>FilteredWatch := [ErrorClosed, EventRecv 1]\<rparr>)
          ''image-pull-in-cluster'') = None"
  using
    checkImagePulled_closing_not_terminal
      [of "healthy_cluster\<lparr>FilteredWatch := [EventRecv 0, EventClosed, ErrorClosed]\<rparr>"
          "[EventRecv 0, EventClosed, ErrorClosed]" "[]" example_config "''image-pull-in-cluster''"
          "''e''" 1 running_pod]
    checkImagePulled_closing_not_terminal
      [of "healthy_cluster\<lparr>FilteredWatch := [EventClosed, ErrorRecv ''watch failed'']\<rparr>"
          "[EventClosed]" "[]" example_config "''image-pull-in-cluster''"
          "''watch failed''" 1 running_pod]
    checkImagePulled_closing_not_terminal
      [of "healthy_cluster\<lparr>FilteredWatch := [ErrorClosed, EventRecv 1]\<rparr>"
          "[ErrorClosed]" "[]" example_config "''image-pull-in-cluster''"
          "''e''" 1 running_pod]
  by (simp add: healthy_cluster_def example_ToPod_def keeps_watching_def running_pod_def
        pending_pod_def)

text \<open>
  C10. When a received pod event does not convert to a pod, the event channel still
  open and nothing before it but pod events that are not running and the closing of
  the error channel, \<open>checkImagePulled\<close> returns the conversion's error, whatever would
  come after it, a Running pod event included.
\<close>

theorem checkImagePulled_malformed_event:
  assumes "FilteredWatch k = pre @ EventRecv wEvent # post"
    and "list_all (keeps_watching (ToPod k)) pre"
    and "EventClosed \<notin> set pre"
    and "ToPod k wEvent = Inl err"
  shows "fst (checkImagePulled c k podName) = Some err"
proof -
  have "select_loop (ToPod k) True True (pre @ EventRecv wEvent # post) =
      select_loop (ToPod k) True (ErrorClosed \<notin> set pre) (EventRecv wEvent # post)"
    using select_loop_keeps_watching [OF assms(2)] assms(3) by simp
  also have "\<dots> = Some err"
    using assms(4) by simp
  finally show ?thesis
    by (simp add: checkImagePulled_def assms(1))
qed

theorem checkImagePulled_malformed_event_witness:
  "fst (checkImagePulled example_config
          (healthy_cluster\<lparr>FilteredWatch := [EventRecv 0, EventRecv 2, EventRecv 1]\<rparr>)
          ''image-pull-in-cluster'') = Some ''invalid object type''"
  using checkImagePulled_malformed_event
    [of "healthy_cluster\<lparr>FilteredWatch := [EventRecv 0, EventRecv 2, EventRecv 1]\<rparr>"
        "[EventRecv 0]" 2 "[EventRecv 1]" "''invalid object type''"
        example_config "''image-pull-in-cluster''"]
  by (simp add: healthy_cluster_def example_ToPod_def keeps_watching_def running_pod_def
        pending_pod_def)

section \<open>Verification: connectivity\<close>

lemma checkProxy_starts: "Call StartProxy_call \<in> set (snd (checkProxy c k url))"
  by (simp add: checkProxy_def split: option.splits)

lemma checkPortForward_starts: "Call NewPortForward_call \<in> set (snd (checkPortForward c k url))"
  by (simp add: checkPortForward_def split: option.splits)

text \<open>
  C6. \<open>checkServerConnection\<close> returns true exactly when the direct probe, the proxy
  attempt or the port-forward attempt succeeds. When the direct probe succeeds, nothing
  else is attempted. When it fails, the run holds the whole proxy attempt and then the
  whole port-forward attempt, each starting its tunnel and each with its report,
  whatever the proxy attempt returned; and the result is the disjunction of the two.
\<close>

theorem checkServerConnection_any_strategy:
  "(fst (checkServerConnection c k) \<longleftrightarrow>
      TestConnection k Direct = None
      \<or> fst (checkProxy c k (GetApiServerUrl c (GuiPort c))) = None
      \<or> fst (checkPortForward c k (GetApiServerUrl c (GuiPort c))) = None)
   \<and> snd (checkServerConnection c k) =
       (if TestConnection k Direct = None
        then [Infof (Section ''API-server-connectivity''),
              Call (TestConnection_call Direct (GetApiServerUrl c (GuiPort c))),
              Infof TunnelAvailable]
        else [Infof (Section ''API-server-connectivity''),
              Call (TestConnection_call Direct (GetApiServerUrl c (GuiPort c)))] @
             snd (checkProxy c k (GetApiServerUrl c (GuiPort c))) @
             [case fst (checkProxy c k (GetApiServerUrl c (GuiPort c))) of
                Some err \<Rightarrow> Errorf (ProxyFailed err) | None \<Rightarrow> Infof ProxyConnected] @
             snd (checkPortForward c k (GetApiServerUrl c (GuiPort c))) @
             [case fst (checkPortForward c k (GetApiServerUrl c (GuiPort c))) of
                Some err \<Rightarrow> Errorf (PortForwardFailed err) | None \<Rightarrow> Infof PortForwardConnected])
   \<and> Call StartProxy_call \<in> set (snd (checkProxy c k (GetApiServerUrl c (GuiPort c))))
   \<and> Call NewPortForward_call \<in> set (snd (checkPortForward c k (GetApiServerUrl c (GuiPort c))))"
proof -
  let ?url = "GetApiServerUrl c (GuiPort c)"
  obtain perr tp where p: "checkProxy c k ?url = (perr, tp)" by (cases "checkProxy c k ?url")
  obtain ferr tf where f: "checkPortForward c k ?url = (ferr, tf)"
    by (cases "checkPortForward c k ?url")
  have res: "fst (checkServerConnection c k) \<longleftrightarrow>
      TestConnection k Direct = None \<or> perr = None \<or> ferr = None"
    by (simp add: checkServerConnection_def Let_def p f split: option.splits)
  have tr: "snd (checkServerConnection c k) =
       (if TestConnection k Direct = None
        then [Infof (Section ''API-server-connectivity''),
              Call (TestConnection_call Direct ?url), Infof TunnelAvailable]
        else [Infof (Section ''API-server-connectivity''),
              Call (TestConnection_call Direct ?url)] @ tp @
             [case perr of Some err \<Rightarrow> Errorf (ProxyFailed err) | None \<Rightarrow> Infof ProxyConnected] @
             tf @
             [case ferr of
                Some err \<Rightarrow> Errorf (PortForwardFailed err) | None \<Rightarrow> Infof PortForwardConnected])"
    by (simp add: checkServerConnection_def Let_def p f split: option.splits)
  from res tr checkProxy_starts [of c k ?url] checkPortForward_starts [of c k ?url]
  show ?thesis by (simp add: p f)
qed

text \<open>
  C7, at a failing input: the proxy starts and the probe through it fails. \<open>checkProxy\<close>
  returns the probe's error having called \<^verbatim>\<open>cancel\<close> but not \<^verbatim>\<open>Shutdown\<close>; in the same
  way \<open>checkPortForward\<close> returns without \<^verbatim>\<open>Close\<close>. On the healthy cluster both are
  called.
\<close>

theorem tunnel_left_open_on_probe_failure:
  "checkProxy example_config unreachable_cluster ''localhost'' =
     (Some ''connection refused'',
      [Call StartProxy_call, Call (TestConnection_call Proxy ''localhost''), Call cancel_call])
   \<and> checkPortForward example_config unreachable_cluster ''localhost'' =
     (Some ''connection refused'',
      [Call NewPortForward_call, Call (TestConnection_call PortForward ''localhost''),
       Call cancel_call])
   \<and> checkProxy example_config healthy_cluster ''localhost'' =
     (None,
      [Call StartProxy_call, Call (TestConnection_call Proxy ''localhost''),
       Call Shutdown_call, Call cancel_call])
   \<and> checkPortForward example_config healthy_cluster ''localhost'' =
     (None,
      [Call NewPortForward_call, Call (TestConnection_call PortForward ''localhost''),
       Call Close_call, Call cancel_call])"
  by (simp add: checkProxy_def checkPortForward_def unreachable_cluster_def healthy_cluster_def)

section \<open>Verification: the image-pull check\<close>

lemma calls_of_simps:
  "calls_of [] = []"
  "calls_of (Call q # tr) = q # calls_of tr"
  "calls_of (Infof m # tr) = calls_of tr"
  "calls_of (Errorf m # tr) = calls_of tr"
  "calls_of (Debugf m # tr) = calls_of tr"
  "calls_of (tr @ tr') = calls_of tr @ calls_of tr'"
  by (simp_all add: calls_of_def call_of_def map_filter_append)

lemma checkImagePullInCluster_verdict:
  "fst (checkImagePullInCluster c k) \<longleftrightarrow>
     fst (createImagePullInClusterResources c k ''image-pull-in-cluster'') = None
     \<and> fst (checkImagePulled c k ''image-pull-in-cluster'') = None"
  by (simp add: checkImagePullInCluster_def Let_def split_beta split: option.splits prod.splits)

text \<open>
  C8. Every run of \<open>checkImagePullInCluster\<close> ends with what
  \<open>removeImagePullInClusterResources\<close> calls and logs: the removal of the probe pod
  and, outside the namespace-restricted mode, of the namespace, whether or not the first
  removal failed. The verdict is that of the creation and of the wait only: it is the
  same whatever the two removals answer.
\<close>

theorem checkImagePullInCluster_cleanup:
  "(\<exists>body. snd (checkImagePullInCluster c k) =
       body @ removeImagePullInClusterResources c k ''image-pull-in-cluster'')
   \<and> calls_of (removeImagePullInClusterResources c k ''image-pull-in-cluster'') =
       RemovePod_call (MizuResourcesNamespace c) ''image-pull-in-cluster'' #
       (if IsNsRestrictedMode c then [] else [RemoveNamespace_call (MizuResourcesNamespace c)])
   \<and> (fst (checkImagePullInCluster c k) \<longleftrightarrow>
        fst (createImagePullInClusterResources c k ''image-pull-in-cluster'') = None
        \<and> fst (checkImagePulled c k ''image-pull-in-cluster'') = None)
   \<and> fst (checkImagePullInCluster c (k\<lparr>RemovePod := rp, RemoveNamespace := rn\<rparr>)) =
       fst (checkImagePullInCluster c k)"
proof -
  have ends: "\<exists>body. snd (checkImagePullInCluster c k) =
       body @ removeImagePullInClusterResources c k ''image-pull-in-cluster''"
    by (simp add: checkImagePullInCluster_def Let_def split_beta
          flip: append_Cons append_assoc)
  have calls: "calls_of (removeImagePullInClusterResources c k ''image-pull-in-cluster'') =
       RemovePod_call (MizuResourcesNamespace c) ''image-pull-in-cluster'' #
       (if IsNsRestrictedMode c then [] else [RemoveNamespace_call (MizuResourcesNamespace c)])"
    by (simp add: removeImagePullInClusterResources_def Let_def calls_of_simps
          split: option.splits)
  have create: "createImagePullInClusterResources c (k\<lparr>RemovePod := rp, RemoveNamespace := rn\<rparr>) n =
       createImagePullInClusterResources c k n" for n
    by (simp add: createImagePullInClusterResources_def Let_def
          cong: option.case_cong prod.case_cong if_cong)
  have pulled: "checkImagePulled c (k\<lparr>RemovePod := rp, RemoveNamespace := rn\<rparr>) n =
       checkImagePulled c k n" for n
    by (simp add: checkImagePulled_def)
  have same: "fst (checkImagePullInCluster c (k\<lparr>RemovePod := rp, RemoveNamespace := rn\<rparr>)) =
       fst (checkImagePullInCluster c k)"
    by (simp only: checkImagePullInCluster_verdict create pulled)
  from ends calls same checkImagePullInCluster_verdict [of c k] show ?thesis by blast
qed

section \<open>Verification: resource existence\<close>

lemma foldl_count_tappers:
  "foldl (\<lambda>(tappers, notRunningTappers) pod.
            (tappers + 1,
             if \<not> IsPodRunning k pod then notRunningTappers + 1 else notRunningTappers))
     (a, b) pods =
   (a + int (length pods), b + int (length (filter (\<lambda>p. \<not> IsPodRunning k p) pods)))"
  by (induction pods arbitrary: a b) simp_all

lemma count_tappers_eq:
  "count_tappers k pods =
     (int (length pods), int (length (filter (\<lambda>p. \<not> IsPodRunning k p) pods)))"
  by (simp add: count_tappers_def foldl_count_tappers)

text \<open>
  C9. When the server pod check has passed and the listing of the worker pods succeeds
  with \<open>N\<close> pods of which \<open>k\<close> are not running: \<open>checkPodResourcesExist\<close> fails exactly
  when \<open>k > 0\<close>, and then its last line reports \<open>k\<close> out of \<open>N\<close>; otherwise its last line
  reports \<open>N\<close> running pods. With no pod listed it succeeds.
\<close>

theorem tapper_pods_check:
  assumes "server_pod_ok c k"
    and "ListPodsByAppLabel k (MizuResourcesNamespace c) (TapperPodName c) = (pods, None)"
  shows "(fst (checkPodResourcesExist c k) \<longleftrightarrow>
            \<not> 0 < length (filter (\<lambda>p. \<not> IsPodRunning k p) pods))
       \<and> last (snd (checkPodResourcesExist c k)) =
           (if 0 < length (filter (\<lambda>p. \<not> IsPodRunning k p) pods)
            then Errorf (PodsNotRunning (TapperPodName c)
                   (int (length (filter (\<lambda>p. \<not> IsPodRunning k p) pods))) (int (length pods)))
            else Infof (PodsRunning (TapperPodName c) (int (length pods))))
       \<and> (pods = [] \<longrightarrow> fst (checkPodResourcesExist c k))"
proof -
  obtain pod0 rest where
    srv: "ListPodsByAppLabel k (MizuResourcesNamespace c) (ApiServerPodName c) = (pod0 # rest, None)"
    and run: "IsPodRunning k pod0"
    using assms(1)
    by (auto simp: server_pod_ok_def split: prod.splits list.splits option.splits)
  show ?thesis
    by (simp add: checkPodResourcesExist_def Let_def srv run assms(2) count_tappers_eq)
qed

theorem tapper_pods_check_witness:
  "fst (checkPodResourcesExist example_config (cluster_with_tappers []))
   \<and> last (snd (checkPodResourcesExist example_config (cluster_with_tappers []))) =
       Infof (PodsRunning ''mizu-tapper'' 0)
   \<and> \<not> fst (checkPodResourcesExist example_config
              (cluster_with_tappers [running_pod, pending_pod, pending_pod]))
   \<and> last (snd (checkPodResourcesExist example_config
              (cluster_with_tappers [running_pod, pending_pod, pending_pod]))) =
       Errorf (PodsNotRunning ''mizu-tapper'' 2 3)"
  using tapper_pods_check [of example_config "cluster_with_tappers []" "[]"]
    tapper_pods_check [of example_config
      "cluster_with_tappers [running_pod, pending_pod, pending_pod]"
      "[running_pod, pending_pod, pending_pod]"]
  by (simp add: server_pod_ok_def cluster_with_tappers_def healthy_cluster_def
        example_config_def running_pod_def pending_pod_def)

lemma length_resource_entry: "length (resource_entry q resourceName resourceType answer) = 2"
  by (simp add: resource_entry_def checkResourceExist_def split: option.splits)

lemma checkPodResourcesExist_result:
  "fst (checkPodResourcesExist c k) \<longleftrightarrow> server_pod_ok c k \<and> tapper_pods_ok c k"
  by (auto simp: checkPodResourcesExist_def server_pod_ok_def tapper_pods_ok_def Let_def
        count_tappers_eq list_all_iff filter_empty_conv
        split: prod.splits list.splits option.splits)

lemma checkPodResourcesExist_calls:
  "calls_of (snd (checkPodResourcesExist c k)) =
     ListPodsByAppLabel_call (MizuResourcesNamespace c) (ApiServerPodName c) #
     (if server_pod_ok c k
      then [ListPodsByAppLabel_call (MizuResourcesNamespace c) (TapperPodName c)] else [])"
  by (auto simp: checkPodResourcesExist_def server_pod_ok_def Let_def calls_of_simps
        split: prod.splits list.splits option.splits)

lemma checkPodResourcesExist_length:
  "length (snd (checkPodResourcesExist c k)) = (if server_pod_ok c k then 4 else 2)"
  by (auto simp: checkPodResourcesExist_def server_pod_ok_def Let_def
        split: prod.splits list.splits option.splits)

text \<open>
  C2, as the claim states it, fails where the server pod is missing: the namespace, the
  config map, the service account, the cluster role, its binding, the service and the
  server pod are queried, and the worker pods are never listed.
\<close>

theorem tapper_pods_not_listed_counterexample:
  "calls_of (snd (checkK8sResources example_config cluster_without_server_pod)) =
     [DoesNamespaceExist_call ''mizu'', DoesConfigMapExist_call ''mizu'' ''mizu-config'',
      DoesServiceAccountExist_call ''mizu'' ''mizu-sa'', DoesClusterRoleExist_call ''mizu-cr'',
      DoesClusterRoleBindingExist_call ''mizu-crb'',
      DoesServiceExist_call ''mizu'' ''mizu-api-server'',
      ListPodsByAppLabel_call ''mizu'' ''mizu-api-server'']
   \<and> ListPodsByAppLabel_call ''mizu'' ''mizu-tapper'' \<notin>
       set (calls_of (snd (checkK8sResources example_config cluster_without_server_pod)))
   \<and> last (snd (checkK8sResources example_config cluster_without_server_pod)) =
       Errorf (PodMissing ''mizu-api-server'')"
  by (simp add: checkK8sResources_def checkPodResourcesExist_def checkResourceExist_def
        cluster_without_server_pod_def healthy_cluster_def example_config_def Let_def
        calls_of_simps)

text \<open>
  C2, amended. In every run of \<open>checkK8sResources\<close> the namespace, the config map, the
  service account, the role and its binding (the cluster role and its binding outside
  the namespace-restricted mode) and the service each have their query and their own
  report, in this order and whatever the others returned; then the server pod is listed
  and reported. The worker pods are listed and reported exactly when the server pod
  check has passed. The result is the conjunction of the results of the entries.
\<close>

theorem checkK8sResources_entries:
  "snd (checkK8sResources c k) =
     Infof (Section ''k8s-components'') #
     resource_entry (DoesNamespaceExist_call (MizuResourcesNamespace c))
       (MizuResourcesNamespace c) ''namespace''
       (DoesNamespaceExist k (MizuResourcesNamespace c)) @
     resource_entry (DoesConfigMapExist_call (MizuResourcesNamespace c) (ConfigMapName c))
       (ConfigMapName c) ''config map''
       (DoesConfigMapExist k (MizuResourcesNamespace c) (ConfigMapName c)) @
     resource_entry (DoesServiceAccountExist_call (MizuResourcesNamespace c) (ServiceAccountName c))
       (ServiceAccountName c) ''service account''
       (DoesServiceAccountExist k (MizuResourcesNamespace c) (ServiceAccountName c)) @
     (if IsNsRestrictedMode c
      then resource_entry (DoesRoleExist_call (MizuResourcesNamespace c) (RoleName c))
             (RoleName c) ''role'' (DoesRoleExist k (MizuResourcesNamespace c) (RoleName c)) @
           resource_entry (DoesRoleBindingExist_call (MizuResourcesNamespace c) (RoleBindingName c))
             (RoleBindingName c) ''role binding''
             (DoesRoleBindingExist k (MizuResourcesNamespace c) (RoleBindingName c))
      else resource_entry (DoesClusterRoleExist_call (ClusterRoleName c))
             (ClusterRoleName c) ''cluster role'' (DoesClusterRoleExist k (ClusterRoleName c)) @
           resource_entry (DoesClusterRoleBindingExist_call (ClusterRoleBindingName c))
             (ClusterRoleBindingName c) ''cluster role binding''
             (DoesClusterRoleBindingExist k (ClusterRoleBindingName c))) @
     resource_entry (DoesServiceExist_call (MizuResourcesNamespace c) (ApiServerPodName c))
       (ApiServerPodName c) ''service''
       (DoesServiceExist k (MizuResourcesNamespace c) (ApiServerPodName c)) @
     snd (checkPodResourcesExist c k)
   \<and> length (resource_entry q resourceName resourceType answer) = 2
   \<and> calls_of (snd (checkPodResourcesExist c k)) =
       ListPodsByAppLabel_call (MizuResourcesNamespace c) (ApiServerPodName c) #
       (if server_pod_ok c k
        then [ListPodsByAppLabel_call (MizuResourcesNamespace c) (TapperPodName c)] else [])
   \<and> length (snd (checkPodResourcesExist c k)) = (if server_pod_ok c k then 4 else 2)
   \<and> (fst (checkK8sResources c k) \<longleftrightarrow>
        DoesNamespaceExist k (MizuResourcesNamespace c) = (True, None)
        \<and> DoesConfigMapExist k (MizuResourcesNamespace c) (ConfigMapName c) = (True, None)
        \<and> DoesServiceAccountExist k (MizuResourcesNamespace c) (ServiceAccountName c) = (True, None)
        \<and> (if IsNsRestrictedMode c
            then DoesRoleExist k (MizuResourcesNamespace c) (RoleName c) = (True, None)
              \<and> DoesRoleBindingExist k (MizuResourcesNamespace c) (RoleBindingName c) = (True, None)
            else DoesClusterRoleExist k (ClusterRoleName c) = (True, None)
              \<and> DoesClusterRoleBindingExist k (ClusterRoleBindingName c) = (True, None))
        \<and> DoesServiceExist k (MizuResourcesNamespace c) (ApiServerPodName c) = (True, None)
        \<and> server_pod_ok c k \<and> tapper_pods_ok c k)"
proof -
  have ok: "fst (checkResourceExist n t (fst a) (snd a)) \<longleftrightarrow> a = (True, None)" for n t a
    by (cases a) (simp add: checkResourceExist_def split: option.splits)
  have tr: "snd (checkK8sResources c k) =
     Infof (Section ''k8s-components'') #
     resource_entry (DoesNamespaceExist_call (MizuResourcesNamespace c))
       (MizuResourcesNamespace c) ''namespace''
       (DoesNamespaceExist k (MizuResourcesNamespace c)) @
     resource_entry (DoesConfigMapExist_call (MizuResourcesNamespace c) (ConfigMapName c))
       (ConfigMapName c) ''config map''
       (DoesConfigMapExist k (MizuResourcesNamespace c) (ConfigMapName c)) @
     resource_entry (DoesServiceAccountExist_call (MizuResourcesNamespace c) (ServiceAccountName c))
       (ServiceAccountName c) ''service account''
       (DoesServiceAccountExist k (MizuResourcesNamespace c) (ServiceAccountName c)) @
     (if IsNsRestrictedMode c
      then resource_entry (DoesRoleExist_call (MizuResourcesNamespace c) (RoleName c))
             (RoleName c) ''role'' (DoesRoleExist k (MizuResourcesNamespace c) (RoleName c)) @
           resource_entry (DoesRoleBindingExist_call (MizuResourcesNamespace c) (RoleBindingName c))
             (RoleBindingName c) ''role binding''
             (DoesRoleBindingExist k (MizuResourcesNamespace c) (RoleBindingName c))
      else resource_entry (DoesClusterRoleExist_call (ClusterRoleName c))
             (ClusterRoleName c) ''cluster role'' (DoesClusterRoleExist k (ClusterRoleName c)) @
           resource_entry (DoesClusterRoleBindingExist_call (ClusterRoleBindingName c))
             (ClusterRoleBindingName c) ''cluster role binding''
             (DoesClusterRoleBindingExist k (ClusterRoleBindingName c))) @
     resource_entry (DoesServiceExist_call (MizuResourcesNamespace c) (ApiServerPodName c))
       (ApiServerPodName c) ''service''
       (DoesServiceExist k (MizuResourcesNamespace c) (ApiServerPodName c)) @
     snd (checkPodResourcesExist c k)"
    by (simp add: checkK8sResources_def resource_entry_def Let_def split_beta)
  have res: "fst (checkK8sResources c k) \<longleftrightarrow>
        DoesNamespaceExist k (MizuResourcesNamespace c) = (True, None)
        \<and> DoesConfigMapExist k (MizuResourcesNamespace c) (ConfigMapName c) = (True, None)
        \<and> DoesServiceAccountExist k (MizuResourcesNamespace c) (ServiceAccountName c) = (True, None)
        \<and> (if IsNsRestrictedMode c
            then DoesRoleExist k (MizuResourcesNamespace c) (RoleName c) = (True, None)
              \<and> DoesRoleBindingExist k (MizuResourcesNamespace c) (RoleBindingName c) = (True, None)
            else DoesClusterRoleExist k (ClusterRoleName c) = (True, None)
              \<and> DoesClusterRoleBindingExist k (ClusterRoleBindingName c) = (True, None))
        \<and> DoesServiceExist k (MizuResourcesNamespace c) (ApiServerPodName c) = (True, None)
        \<and> server_pod_ok c k \<and> tapper_pods_ok c k"
    by (simp add: checkK8sResources_def Let_def split_beta ok checkPodResourcesExist_result)
       blast
  from tr res length_resource_entry [of q resourceName resourceType answer]
    checkPodResourcesExist_calls [of c k] checkPodResourcesExist_length [of c k]
  show ?thesis by blast
qed

section \<open>Verification: the orchestrator\<close>

lemma stages_run_simps:
  "stages_run [] = []"
  "stages_run (Infof m # tr) = (case m of Section s \<Rightarrow> s # stages_run tr | _ \<Rightarrow> stages_run tr)"
  "stages_run (Call q # tr) = stages_run tr"
  "stages_run (Errorf m # tr) = stages_run tr"
  "stages_run (Debugf m # tr) = stages_run tr"
  "stages_run (tr @ tr') = stages_run tr @ stages_run tr'"
  by (simp_all add: stages_run_def section_of_def map_filter_append split: message.splits)

text \<open>What \<open>gated\<close> means, in the words of lists.\<close>

lemma gated_prefix: "\<exists>rest. xs = gated xs @ rest"
  by (induction xs rule: gated.induct) auto

lemma gated_only_after_true:
  "i < length (gated xs) \<Longrightarrow> j < i \<Longrightarrow> fst (snd (gated xs ! j)) = Some True"
proof (induction xs arbitrary: i j rule: gated.induct)
  case 1
  then show ?case by simp
next
  case (2 name r t rest)
  show ?case
  proof (cases "r = Some True")
    case True
    with 2 show ?thesis by (cases i; cases j) auto
  next
    case False
    with 2 show ?thesis by simp
  qed
qed

lemma gated_all_true: "list_all (\<lambda>(name, r, t). r = Some True) (gated xs) \<Longrightarrow> gated xs = xs"
  by (induction xs rule: gated.induct) (auto split: if_splits)

text \<open>Each stage writes its own header, once, and no other.\<close>

lemma stages_run_checkKubernetesApi:
  "stages_run (snd (checkKubernetesApi k)) = [''kubernetes-api'']"
  by (simp add: checkKubernetesApi_def stages_run_simps
        split: option.splits prod.splits)

lemma stages_run_checkKubernetesVersion:
  "stages_run (snd (checkKubernetesVersion k v)) = [''kubernetes-version'']"
  by (simp add: checkKubernetesVersion_def stages_run_simps split: option.splits)

lemma stages_run_tuple_events: "stages_run (tuple_events c k t) = []"
  by (cases t)
     (simp add: tuple_events_def checkPermissionExist_def stages_run_simps
        split: option.splits)

lemma stages_run_checkPermissions: "stages_run (snd (checkPermissions c k rules)) = []"
proof -
  have "stages_run (concat (map (tuple_events c k) ts)) = []" for ts
    by (induction ts) (simp_all add: stages_run_simps stages_run_tuple_events)
  then show ?thesis by (simp add: checkPermissions_eq)
qed

lemma stages_run_checkK8sTapPermissions:
  "stages_run (snd (checkK8sTapPermissions c k)) = [''kubernetes-permissions'']"
  by (simp add: checkK8sTapPermissions_def getDecodedObject_def Let_def split_beta
        stages_run_simps stages_run_checkPermissions
        split: option.splits prod.splits runtime_object.splits)

lemma stages_run_removeImagePullInClusterResources:
  "stages_run (removeImagePullInClusterResources c k n) = []"
  by (simp add: removeImagePullInClusterResources_def Let_def stages_run_simps
        split: option.splits)

lemma stages_run_createImagePullInClusterResources:
  "stages_run (snd (createImagePullInClusterResources c k n)) = []"
  by (simp add: createImagePullInClusterResources_def Let_def stages_run_simps
        split: option.splits)

lemma stages_run_checkImagePullInCluster:
  "stages_run (snd (checkImagePullInCluster c k)) = [''image-pull-in-cluster'']"
proof -
  obtain cerr tc where cr:
    "createImagePullInClusterResources c k ''image-pull-in-cluster'' = (cerr, tc)"
    by (cases "createImagePullInClusterResources c k ''image-pull-in-cluster''")
  have tc: "stages_run tc = []"
    using stages_run_createImagePullInClusterResources [of c k "''image-pull-in-cluster''"]
    by (simp add: cr)
  show ?thesis
    by (simp add: checkImagePullInCluster_def Let_def cr tc checkImagePulled_def
          stages_run_simps stages_run_removeImagePullInClusterResources
          split: option.splits)
qed

lemma stages_run_resource_entry: "stages_run (resource_entry q n t a) = []"
  by (simp add: resource_entry_def checkResourceExist_def stages_run_simps
        split: option.splits)

lemma stages_run_checkPodResourcesExist: "stages_run (snd (checkPodResourcesExist c k)) = []"
  by (simp add: checkPodResourcesExist_def Let_def split_beta stages_run_simps
        split: option.splits prod.splits list.splits)

lemma stages_run_checkK8sResources:
  "stages_run (snd (checkK8sResources c k)) = [''k8s-components'']"
proof -
  have "stages_run (snd (checkResourceExist n t e r)) = []" for n t e r
    by (simp add: checkResourceExist_def stages_run_simps split: option.splits)
  then show ?thesis
    by (simp add: checkK8sResources_def Let_def split_beta stages_run_simps
          stages_run_checkPodResourcesExist)
qed

lemma stages_run_checkProxy: "stages_run (snd (checkProxy c k url)) = []"
  by (simp add: checkProxy_def stages_run_simps split: option.splits)

lemma stages_run_checkPortForward: "stages_run (snd (checkPortForward c k url)) = []"
  by (simp add: checkPortForward_def stages_run_simps split: option.splits)

lemma stages_run_checkServerConnection:
  "stages_run (snd (checkServerConnection c k)) = [''API-server-connectivity'']"
  by (simp add: checkServerConnection_def Let_def split_beta stages_run_simps
        stages_run_checkProxy stages_run_checkPortForward split: option.splits)

text \<open>
  C1. Every run of \<open>runMizuCheck\<close> is the opening line, then what the stages that
  \<open>gated\<close> lets run call and log, in the order of the fixed plan (API reachability,
  version, then permissions and image pull under \<^verbatim>\<open>PreTap\<close>, resources and connectivity
  otherwise), then the closing: a stage runs only when every stage before it returned
  true, and a stage that does not run calls and logs nothing. The headers written are
  those of the stages that ran. The verdict, which picks the closing line, is the
  conjunction of the results of the stages that ran. (A permission stage that panics on
  a manifest of the wrong kind ends the run with no verdict.)
\<close>

theorem runMizuCheck_gating:
  "snd (runMizuCheck c k) =
     Infof MizuChecks # concat (map (\<lambda>(name, r, t). t) (gated (stage_plan c k))) @
     closing (fst (runMizuCheck c k))
   \<and> stages_run (snd (runMizuCheck c k)) = map fst (gated (stage_plan c k))
   \<and> fst (runMizuCheck c k) =
       (if None \<in> set (map (\<lambda>(name, r, t). r) (gated (stage_plan c k))) then None
        else Some (list_all (\<lambda>(name, r, t). r = Some True) (gated (stage_plan c k))))"
proof -
  obtain v p1 t1 where s1: "checkKubernetesApi k = ((v, p1), t1)"
    by (metis surj_pair)
  obtain p2 t2 where s2: "checkKubernetesVersion k v = (p2, t2)"
    by (cases "checkKubernetesVersion k v")
  obtain p3 t3 where s3: "checkK8sTapPermissions c k = (p3, t3)"
    by (cases "checkK8sTapPermissions c k")
  obtain p4 t4 where s4: "checkImagePullInCluster c k = (p4, t4)"
    by (cases "checkImagePullInCluster c k")
  obtain p5 t5 where s5: "checkK8sResources c k = (p5, t5)"
    by (cases "checkK8sResources c k")
  obtain p6 t6 where s6: "checkServerConnection c k = (p6, t6)"
    by (cases "checkServerConnection c k")
  have h1: "stages_run t1 = [''kubernetes-api'']"
    using stages_run_checkKubernetesApi [of k] by (simp add: s1)
  have h2: "stages_run t2 = [''kubernetes-version'']"
    using stages_run_checkKubernetesVersion [of k v] by (simp add: s2)
  have h3: "stages_run t3 = [''kubernetes-permissions'']"
    using stages_run_checkK8sTapPermissions [of c k] by (simp add: s3)
  have h4: "stages_run t4 = [''image-pull-in-cluster'']"
    using stages_run_checkImagePullInCluster [of c k] by (simp add: s4)
  have h5: "stages_run t5 = [''k8s-components'']"
    using stages_run_checkK8sResources [of c k] by (simp add: s5)
  have h6: "stages_run t6 = [''API-server-connectivity'']"
    using stages_run_checkServerConnection [of c k] by (simp add: s6)
  note hs = h1 h2 h3 h4 h5 h6 stages_run_simps closing_def
  show ?thesis
  proof (cases "PreTap c")
    case True
    show ?thesis
    proof (cases p3)
      case None
      then show ?thesis
        by (cases p1; cases p2)
           (simp_all add: runMizuCheck_def stage_plan_def Let_def s1 s2 s3 s4 True hs)
    next
      case (Some b3)
      then show ?thesis
        by (cases p1; cases p2; cases b3; cases p4)
           (simp_all add: runMizuCheck_def stage_plan_def Let_def s1 s2 s3 s4 True hs)
    qed
  next
    case False
    then show ?thesis
      by (cases p1; cases p2; cases p5; cases p6)
         (simp_all add: runMizuCheck_def stage_plan_def Let_def s1 s2 s5 s6 hs)
  qed
qed

theorem runMizuCheck_gating_witness:
  "stages_run (snd (runMizuCheck example_config healthy_cluster)) =
     [''kubernetes-api'', ''kubernetes-version'', ''k8s-components'', ''API-server-connectivity'']
   \<and> fst (runMizuCheck example_config healthy_cluster) = Some True
   \<and> stages_run (snd (runMizuCheck example_config old_cluster)) =
     [''kubernetes-api'', ''kubernetes-version'']
   \<and> fst (runMizuCheck example_config old_cluster) = Some False"
  using runMizuCheck_gating [of example_config healthy_cluster]
    runMizuCheck_gating [of example_config old_cluster]
  by (simp add: stage_plan_def checkKubernetesApi_def checkKubernetesVersion_def
        checkK8sResources_def checkPodResourcesExist_def checkResourceExist_def
        checkServerConnection_def count_tappers_def Let_def
        healthy_cluster_def old_cluster_def example_config_def running_pod_def
        stages_run_simps closing_def)

end
